theory Spec2Isabelle
  imports Main
begin

section \<open>Data model of \<open>src/charm.py\<close>\<close>

text \<open>
  A CSR travels as PEM text. Python's \<open>bytes\<close> and \<open>str\<close> are both modelled
  as \<open>string\<close> (a list of 8-bit characters), so \<open>str.encode()\<close> is the identity.
  A relation id is a Python \<open>int\<close>.
\<close>

type_synonym bytes = string

definition encode :: "string \<Rightarrow> bytes" where
  "encode s = s"

text \<open>
  \<open>RequirerCSR\<close> of the tls-certificates library: one outstanding request.
  The charm reads the two fields \<open>relation_id\<close> and \<open>csr\<close>.
\<close>

record requirer_csr =
  relation_id :: int
  csr :: string

text \<open>
  The exceptions the charm's calls into \<open>cryptography.x509\<close> raise:
  \<open>load_pem_x509_csr\<close> raises \<open>ValueError\<close> on bytes that are no CSR, and
  \<open>get_extension_for_class\<close> raises \<open>ExtensionNotFound\<close> when the extension
  is absent. The charm has no \<open>try\<close> statement, so a raised exception leaves every
  function it passes through; a fallible function returns \<open>error + 'a\<close>.
\<close>

datatype error = ValueError | ExtensionNotFound

text \<open>
  What the charm reads off a loaded CSR. \<open>ip_addresses\<close> holds \<open>str(ip)\<close> of every
  \<open>IPAddress\<close> value of the extension and \<open>registered_ids\<close> the \<open>dotted_string\<close>
  of every \<open>RegisteredID\<close> value, the only forms in which the charm uses them.
  \<open>san = None\<close> is a CSR without a Subject Alternative Name extension.
\<close>

record subject_alternative_name =
  dns_names :: "string list"
  ip_addresses :: "string list"
  registered_ids :: "string list"

record csr_object =
  common_names :: "string list"
  san :: "subject_alternative_name option"

text \<open>
  \<open>x509.load_pem_x509_csr\<close> belongs to the \<open>cryptography\<close> package. Every function that
  calls it takes it as the parameter \<open>load\<close>; \<open>load c = None\<close> stands for
  the \<open>ValueError\<close> it raises.
\<close>

type_synonym loader = "bytes \<Rightarrow> csr_object option"

text \<open>
  The reserved identifiers: the JSON document under the key \<open>reserved-identifiers\<close> of
  the peer relation's application data, a dictionary from \<open>dns\<close>, \<open>ip\<close>, \<open>oid\<close>
  to a dictionary from identifier to relation id. \<open>json.loads (json.dumps m) = m\<close> for
  such a dictionary, so the document is stored as the dictionary itself.
  \<open>app_data = None\<close>: the key is not in the data bag.
\<close>

type_synonym id_table = "string \<rightharpoonup> int"
type_synonym reserved = "string \<rightharpoonup> id_table"

record relation =
  app_data :: "reserved option"

text \<open>
  What a handler does to its collaborators, in the order it does it: records sent to the
  logger (level and format string; the format arguments are left out), calls to the
  upstream provider and downstream requirers libraries, \<open>event.defer()\<close>, and each
  invocation of a filter's \<open>callback\<close>.
\<close>

datatype level = WARNING | ERROR

datatype csr_filter = LimitToOneRequest | LimitToFirstRequester

datatype effect =
    Log level string
  | Callback csr_filter bytes int
  | RequestCertificateCreation bytes bool
  | RequestCertificateRevocation bytes
  | SetRelationCertificate string string string "string list" int
  | RemoveCertificate string
  | RevokeAllCertificates
  | Defer

datatype status = MaintenanceStatus | ActiveStatus | BlockedStatus string

section \<open>\<open>LimitToOneRequest\<close>\<close>

definition LimitToOneRequest_DENY_MSG :: string where
  "LimitToOneRequest_DENY_MSG =
     ''Denied CSR for relation_id: %d. Only a single CSR is allowed for application.''"

text \<open>
  \<open>LimitToOneRequest.evaluate\<close>. The comprehension variable \<open>csr\<close> shadows the
  parameter: the submitted bytes are never read. The result is the returned value and the
  records logged.
\<close>

definition LimitToOneRequest_evaluate ::
  "bytes \<Rightarrow> int \<Rightarrow> requirer_csr list \<Rightarrow> (error + bool) \<times> effect list" where
  "LimitToOneRequest_evaluate c rid requirer_csrs =
     (let relevant_csrs = filter (\<lambda>r. relation_id r = rid) requirer_csrs in
      if length relevant_csrs > 1
      then (Inr False, [Log WARNING LimitToOneRequest_DENY_MSG])
      else (Inr True, []))"

text \<open>\<open>LimitToOneRequest.callback\<close>: \<open>pass\<close>. The state is the peer relation.\<close>

definition LimitToOneRequest_callback ::
  "bytes \<Rightarrow> int \<Rightarrow> relation option \<Rightarrow> error + relation option" where
  "LimitToOneRequest_callback c rid rel = Inr rel"

section \<open>\<open>LimitToFirstRequester\<close>\<close>

text \<open>
  The filter object keeps in \<open>_relation\<close> the peer relation that
  \<open>model.get_relation(PEER_RELATION_NAME)\<close> returned when the chain was built:
  \<open>None\<close>, or a reference to the one relation object whose data the callback writes.
  The model passes that relation, with its current data, to each method.
\<close>

definition LimitToFirstRequester_DENY_MSG :: string where
  "LimitToFirstRequester_DENY_MSG =
     ''CSR denied for relation ID %d, %s '' @ [CHR 0x27] @ ''%s'' @ [CHR 0x27] @
     '' already requested.''"

definition NO_PEER_MSG :: string where
  "NO_PEER_MSG =
     ''LimitToFirstRequester can not access peer relation yet.'' @
     ''denying all csrs until peer relation joined''"

text \<open>\<open>_get_reserved_identifiers\<close>, with \<open>data.get(key, "{}")\<close> for a missing key.\<close>

definition get_reserved_identifiers :: "relation option \<Rightarrow> reserved" where
  "get_reserved_identifiers rel =
     (case rel of
        None \<Rightarrow> Map.empty
      | Some r \<Rightarrow> (case app_data r of None \<Rightarrow> Map.empty | Some m \<Rightarrow> m))"

text \<open>\<open>_set_reserved_identifiers\<close>.\<close>

definition set_reserved_identifiers :: "relation option \<Rightarrow> reserved \<Rightarrow> relation option" where
  "set_reserved_identifiers rel new_mapping =
     (case rel of
        None \<Rightarrow> None
      | Some r \<Rightarrow> Some (r\<lparr>app_data := Some new_mapping\<rparr>))"

text \<open>\<open>d.get(k, {})\<close> on the document.\<close>

definition dict_get :: "reserved \<Rightarrow> string \<Rightarrow> id_table" where
  "dict_get d k = (case d k of None \<Rightarrow> Map.empty | Some t \<Rightarrow> t)"

text \<open>The comprehension \<open>{k: relation_id for k in ks}\<close>.\<close>

definition dict_of_keys :: "string list \<Rightarrow> int \<Rightarrow> id_table" where
  "dict_of_keys ks rid = (\<lambda>k. if k \<in> set ks then Some rid else None)"

text \<open>
  \<open>_update_reserved_identifier_mapping\<close>. Python's \<open>a | b\<close> on dictionaries is
  \<open>a ++ b\<close>: the right operand wins on a common key.
\<close>

definition update_reserved_identifier_mapping ::
  "loader \<Rightarrow> relation option \<Rightarrow> bytes \<Rightarrow> int \<Rightarrow> error + relation option" where
  "update_reserved_identifier_mapping load rel c rid =
     (case load c of
        None \<Rightarrow> Inl ValueError
      | Some csr_object \<Rightarrow>
          (case san csr_object of
             None \<Rightarrow> Inl ExtensionNotFound
           | Some s \<Rightarrow>
               let dnss = dns_names s;
                   ips = ip_addresses s;
                   oids = registered_ids s;
                   cur_mapping = get_reserved_identifiers rel;
                   cur_mapping = cur_mapping(''dns'' \<mapsto>
                     dict_get cur_mapping ''dns'' ++ dict_of_keys dnss rid);
                   cur_mapping = cur_mapping(''ip'' \<mapsto>
                     dict_get cur_mapping ''ip'' ++ dict_of_keys ips rid);
                   cur_mapping = cur_mapping(''oid'' \<mapsto>
                     dict_get cur_mapping ''oid'' ++ dict_of_keys oids rid)
               in Inr (set_reserved_identifiers rel cur_mapping)))"

text \<open>
  One \<open>for\<close> loop of \<open>evaluate\<close>: the first value of the chained sequence that is a
  key of the table with a value other than \<open>relation_id\<close>, at which the loop returns.
\<close>

fun first_reserved :: "id_table \<Rightarrow> int \<Rightarrow> string list \<Rightarrow> string option" where
  "first_reserved tbl rid [] = None"
| "first_reserved tbl rid (x # xs) =
     (if tbl x \<noteq> None \<and> tbl x \<noteq> Some rid then Some x else first_reserved tbl rid xs)"

text \<open>\<open>LimitToFirstRequester.evaluate\<close>.\<close>

definition LimitToFirstRequester_evaluate ::
  "loader \<Rightarrow> relation option \<Rightarrow> bytes \<Rightarrow> int \<Rightarrow> requirer_csr list
     \<Rightarrow> (error + bool) \<times> effect list" where
  "LimitToFirstRequester_evaluate load rel c rid requirer_csrs =
     (case rel of
        None \<Rightarrow> (Inr False, [Log ERROR NO_PEER_MSG])
      | Some _ \<Rightarrow>
          (case load c of
             None \<Rightarrow> (Inl ValueError, [])
           | Some csr_object \<Rightarrow>
               let subjects = common_names csr_object in
               (case san csr_object of
                  None \<Rightarrow> (Inl ExtensionNotFound, [])
                | Some s \<Rightarrow>
                    let reserved_identifiers = get_reserved_identifiers rel in
                    (case first_reserved (dict_get reserved_identifiers ''dns'') rid
                            (dns_names s @ subjects) of
                       Some dns \<Rightarrow> (Inr False, [Log WARNING LimitToFirstRequester_DENY_MSG])
                     | None \<Rightarrow>
                    (case first_reserved (dict_get reserved_identifiers ''ip'') rid
                            (ip_addresses s @ subjects) of
                       Some ip \<Rightarrow> (Inr False, [Log WARNING LimitToFirstRequester_DENY_MSG])
                     | None \<Rightarrow>
                    (case first_reserved (dict_get reserved_identifiers ''oid'') rid
                            (registered_ids s @ subjects) of
                       Some oid \<Rightarrow> (Inr False, [Log WARNING LimitToFirstRequester_DENY_MSG])
                     | None \<Rightarrow> (Inr True, [])))))))"

text \<open>\<open>LimitToFirstRequester.callback\<close>.\<close>

definition LimitToFirstRequester_callback ::
  "loader \<Rightarrow> bytes \<Rightarrow> int \<Rightarrow> relation option \<Rightarrow> error + relation option" where
  "LimitToFirstRequester_callback load c rid rel =
     update_reserved_identifier_mapping load rel c rid"

section \<open>The \<open>CsrFilter\<close> protocol\<close>

text \<open>Method dispatch on the class of the filter.\<close>

fun evaluate ::
  "loader \<Rightarrow> relation option \<Rightarrow> csr_filter \<Rightarrow> bytes \<Rightarrow> int \<Rightarrow> requirer_csr list
     \<Rightarrow> (error + bool) \<times> effect list" where
  "evaluate load rel LimitToOneRequest c rid rs = LimitToOneRequest_evaluate c rid rs"
| "evaluate load rel LimitToFirstRequester c rid rs =
     LimitToFirstRequester_evaluate load rel c rid rs"

fun callback ::
  "loader \<Rightarrow> csr_filter \<Rightarrow> bytes \<Rightarrow> int \<Rightarrow> relation option \<Rightarrow> error + relation option" where
  "callback load LimitToOneRequest c rid rel = LimitToOneRequest_callback c rid rel"
| "callback load LimitToFirstRequester c rid rel = LimitToFirstRequester_callback load c rid rel"

section \<open>\<open>TLSConstraintsCharm\<close>\<close>

text \<open>
  What a handler reads of the charm and its libraries, and what it leaves behind.
  The two flags are the truth values of \<open>config.get("limit-to-one-request")\<close> and
  \<open>config.get("limit-to-first-requester")\<close>; \<open>peer_relation\<close> is
  \<open>model.get_relation(PEER_RELATION_NAME)\<close>; \<open>provider_relation\<close> tells whether
  \<open>model.get_relation(RELATION_NAME_TO_TLS_PROVIDER)\<close> is there; \<open>requirer_csrs\<close> is
  what \<open>certificates_requirers.get_requirer_csrs()\<close> returns.
\<close>

record charm =
  limit_to_one_request :: bool
  limit_to_first_requester :: bool
  peer_relation :: "relation option"
  provider_relation :: bool
  requirer_csrs :: "requirer_csr list"
  unit_status :: status
  effects :: "effect list"

definition BLOCKED_MSG :: string where
  "BLOCKED_MSG = ''Need a relation to a TLS certificates provider''"

definition REQUEST_DENIED_MSG :: string where
  "REQUEST_DENIED_MSG =
     ''Certificate Request for relation ID %d was denied. Details in previous logs.''"

definition NOT_FOUND_MSG :: string where
  "NOT_FOUND_MSG = ''Could not find the relation for CSR: %s.''"

definition MULTIPLE_MSG :: string where
  "MULTIPLE_MSG =
     ''Multiple requirers have the same CSR. Cannot choose one between relation IDs: %s''"

text \<open>\<open>_get_csr_filters\<close>.\<close>

definition get_csr_filters :: "charm \<Rightarrow> csr_filter list" where
  "get_csr_filters s =
     (let filters = [];
          filters = (if limit_to_one_request s then filters @ [LimitToOneRequest] else filters);
          filters = (if limit_to_first_requester s then filters @ [LimitToFirstRequester]
                     else filters)
      in filters)"

text \<open>
  \<open>all(filter.evaluate(...) for filter in filters)\<close>: the generator is consumed up to the
  first \<open>False\<close>, and an exception raised by an \<open>evaluate\<close> ends it.
\<close>

fun all_evaluate ::
  "loader \<Rightarrow> bytes \<Rightarrow> int \<Rightarrow> requirer_csr list \<Rightarrow> csr_filter list \<Rightarrow> charm
     \<Rightarrow> (error + bool) \<times> charm" where
  "all_evaluate load c rid rs [] s = (Inr True, s)"
| "all_evaluate load c rid rs (f # fs) s =
     (case evaluate load (peer_relation s) f c rid rs of
        (r, logs) \<Rightarrow>
          let s' = s\<lparr>effects := effects s @ logs\<rparr> in
          (case r of
             Inl e \<Rightarrow> (Inl e, s')
           | Inr b \<Rightarrow> if b then all_evaluate load c rid rs fs s' else (Inr False, s')))"

text \<open>
  The comprehension \<open>[filter.callback(csr, relation_id) for filter in filters]\<close>. Each
  call is recorded in \<open>effects\<close> as it is made.
\<close>

fun run_callbacks ::
  "loader \<Rightarrow> bytes \<Rightarrow> int \<Rightarrow> csr_filter list \<Rightarrow> charm \<Rightarrow> (error + unit) \<times> charm" where
  "run_callbacks load c rid [] s = (Inr (), s)"
| "run_callbacks load c rid (f # fs) s =
     (let s' = s\<lparr>effects := effects s @ [Callback f c rid]\<rparr> in
      case callback load f c rid (peer_relation s') of
        Inl e \<Rightarrow> (Inl e, s')
      | Inr rel \<Rightarrow> run_callbacks load c rid fs (s'\<lparr>peer_relation := rel\<rparr>))"

text \<open>\<open>_is_certificate_allowed\<close>.\<close>

definition is_certificate_allowed ::
  "loader \<Rightarrow> bytes \<Rightarrow> int \<Rightarrow> charm \<Rightarrow> (error + bool) \<times> charm" where
  "is_certificate_allowed load c rid s =
     (let filters = get_csr_filters s;
          all_requirers_csrs = requirer_csrs s
      in case all_evaluate load c rid all_requirers_csrs filters s of
           (Inl e, s') \<Rightarrow> (Inl e, s')
         | (Inr b, s') \<Rightarrow>
             if \<not> b then (Inr False, s')
             else (case run_callbacks load c rid filters s' of
                     (Inl e, s'') \<Rightarrow> (Inl e, s'')
                   | (Inr u, s'') \<Rightarrow> (Inr True, s'')))"

text \<open>
  \<open>_get_relation_id_for_csr\<close>. The set \<open>relation_ids\<close> is a list without duplicates;
  \<open>pop\<close> on a set of one element returns that element.
\<close>

definition get_relation_id_for_csr :: "string \<Rightarrow> charm \<Rightarrow> int option \<times> charm" where
  "get_relation_id_for_csr c s =
     (let all_requirers_csrs = requirer_csrs s;
          relation_ids = remdups (map relation_id (filter (\<lambda>r. csr r = c) all_requirers_csrs))
      in case relation_ids of
           [] \<Rightarrow> (None, s)
         | [x] \<Rightarrow> (Some x, s)
         | _ \<Rightarrow> (None, s\<lparr>effects := effects s @ [Log ERROR MULTIPLE_MSG]\<rparr>))"

text \<open>\<open>_update_status\<close>.\<close>

definition update_status :: "charm \<Rightarrow> (error + unit) \<times> charm" where
  "update_status s =
     (if \<not> provider_relation s then (Inr (), s\<lparr>unit_status := BlockedStatus BLOCKED_MSG\<rparr>)
      else (Inr (), s\<lparr>unit_status := ActiveStatus\<rparr>))"

text \<open>\<open>_on_certificate_creation_request\<close>.\<close>

definition on_certificate_creation_request ::
  "loader \<Rightarrow> string \<Rightarrow> int \<Rightarrow> bool \<Rightarrow> charm \<Rightarrow> (error + unit) \<times> charm" where
  "on_certificate_creation_request load certificate_signing_request rid is_ca s =
     (if \<not> provider_relation s
      then (Inr (), s\<lparr>effects := effects s @ [Defer],
                     unit_status := BlockedStatus BLOCKED_MSG\<rparr>)
      else
        let c = encode certificate_signing_request in
        case is_certificate_allowed load c rid s of
          (Inl e, s') \<Rightarrow> (Inl e, s')
        | (Inr b, s') \<Rightarrow>
            if b then (Inr (), s'\<lparr>effects := effects s' @ [RequestCertificateCreation c is_ca]\<rparr>)
            else (Inr (), s'\<lparr>effects := effects s' @ [Log WARNING REQUEST_DENIED_MSG]\<rparr>))"

text \<open>\<open>_on_certificate_revocation_request\<close>.\<close>

definition on_certificate_revocation_request :: "string \<Rightarrow> charm \<Rightarrow> (error + unit) \<times> charm" where
  "on_certificate_revocation_request certificate_signing_request s =
     (if \<not> provider_relation s then (Inr (), s\<lparr>unit_status := BlockedStatus BLOCKED_MSG\<rparr>)
      else (Inr (), s\<lparr>effects := effects s @
              [RequestCertificateRevocation (encode certificate_signing_request)]\<rparr>))"

text \<open>
  \<open>_on_certificate_available\<close>. \<open>not relation_id\<close> holds of \<open>None\<close> and of \<open>0\<close>,
  the two values of an \<open>Optional[int]\<close> that are false.
\<close>

definition on_certificate_available ::
  "string \<Rightarrow> string \<Rightarrow> string \<Rightarrow> string list \<Rightarrow> charm \<Rightarrow> (error + unit) \<times> charm" where
  "on_certificate_available certificate_signing_request certificate ca chain s =
     (case get_relation_id_for_csr certificate_signing_request s of
        (None, s') \<Rightarrow> (Inr (), s'\<lparr>effects := effects s' @ [Log ERROR NOT_FOUND_MSG]\<rparr>)
      | (Some x, s') \<Rightarrow>
          if x = 0
          then (Inr (), s'\<lparr>effects := effects s' @ [Log ERROR NOT_FOUND_MSG]\<rparr>)
          else (Inr (), s'\<lparr>effects := effects s' @
                  [SetRelationCertificate certificate certificate_signing_request ca chain x]\<rparr>))"

text \<open>\<open>_on_certificate_invalidated\<close>.\<close>

definition on_certificate_invalidated :: "string \<Rightarrow> string \<Rightarrow> charm \<Rightarrow> (error + unit) \<times> charm" where
  "on_certificate_invalidated reason certificate s =
     (if reason = ''expired'' then (Inr (), s)
      else (Inr (), s\<lparr>effects := effects s @ [RemoveCertificate certificate]\<rparr>))"

text \<open>\<open>_on_all_certificates_invalidated\<close>.\<close>

definition on_all_certificates_invalidated :: "charm \<Rightarrow> (error + unit) \<times> charm" where
  "on_all_certificates_invalidated s =
     (Inr (), s\<lparr>effects := effects s @ [RevokeAllCertificates]\<rparr>)"

text \<open>The events observed in \<open>__init__\<close>, each with the handler registered for it.\<close>

datatype event =
    Install
  | UpdateStatus
  | UpstreamRelationJoined
  | DownstreamRelationJoined
  | CertificateCreationRequest string int bool
  | CertificateRevocationRequest string
  | CertificateAvailable string string string "string list"
  | CertificateInvalidated string string
  | AllCertificatesInvalidated

fun handle :: "loader \<Rightarrow> event \<Rightarrow> charm \<Rightarrow> (error + unit) \<times> charm" where
  "handle load Install s = update_status s"
| "handle load UpdateStatus s = update_status s"
| "handle load UpstreamRelationJoined s = update_status s"
| "handle load DownstreamRelationJoined s = update_status s"
| "handle load (CertificateCreationRequest c rid is_ca) s =
     on_certificate_creation_request load c rid is_ca s"
| "handle load (CertificateRevocationRequest c) s = on_certificate_revocation_request c s"
| "handle load (CertificateAvailable c certificate ca chain) s =
     on_certificate_available c certificate ca chain s"
| "handle load (CertificateInvalidated reason certificate) s =
     on_certificate_invalidated reason certificate s"
| "handle load AllCertificatesInvalidated s = on_all_certificates_invalidated s"

section \<open>Observations on a run\<close>

text \<open>The invocations of filter callbacks among the effects, in the order they were made.\<close>

definition callbacks :: "effect list \<Rightarrow> effect list" where
  "callbacks tr = filter (\<lambda>e. case e of Callback f c rid \<Rightarrow> True | _ \<Rightarrow> False) tr"

text \<open>
  When a filter's \<open>callback\<close> returns on the bytes \<open>c\<close> instead of raising: always for
  \<open>LimitToOneRequest\<close>; for \<open>LimitToFirstRequester\<close> when the bytes load and the CSR
  has a Subject Alternative Name extension.
\<close>

definition callback_ok :: "loader \<Rightarrow> bytes \<Rightarrow> csr_filter \<Rightarrow> bool" where
  "callback_ok load c f =
     (case f of LimitToOneRequest \<Rightarrow> True
      | LimitToFirstRequester \<Rightarrow>
          (case load c of None \<Rightarrow> False | Some ob \<Rightarrow> san ob \<noteq> None))"

text \<open>
  The owner recorded for the identifier \<open>v\<close> of kind \<open>kind\<close> (\<open>dns\<close>, \<open>ip\<close> or
  \<open>oid\<close>) in the reserved identifiers of the peer relation, if there is one.
\<close>

definition owner :: "relation option \<Rightarrow> string \<Rightarrow> string \<Rightarrow> int option" where
  "owner rel kind v = dict_get (get_reserved_identifiers rel) kind v"

text \<open>
  The identifiers of a CSR, each with the kind of table it is looked up in: the DNS names,
  IP addresses and registered ids of the Subject Alternative Name extension under their own
  kind, and every subject common name under each of the three kinds. A CSR without the
  extension contributes its common names only.
\<close>

definition csr_identifiers :: "csr_object \<Rightarrow> (string \<times> string) list" where
  "csr_identifiers ob =
     (case san ob of
        None \<Rightarrow> []
      | Some s \<Rightarrow>
          map (Pair ''dns'') (dns_names s) @ map (Pair ''ip'') (ip_addresses s) @
          map (Pair ''oid'') (registered_ids s)) @
     concat (map (\<lambda>cn. [(''dns'', cn), (''ip'', cn), (''oid'', cn)]) (common_names ob))"


text \<open>
  The relation ids of the outstanding requests whose CSR equals \<open>c\<close>, character by
  character.
\<close>

definition matching_relation_ids :: "string \<Rightarrow> requirer_csr list \<Rightarrow> int set" where
  "matching_relation_ids c outstanding =
     set (map relation_id (filter (\<lambda>r. csr r = c) outstanding))"

text \<open>The certificates handed to requirers (\<open>set_relation_certificate\<close>) among the effects.\<close>

definition deliveries :: "effect list \<Rightarrow> effect list" where
  "deliveries tr =
     filter (\<lambda>e. case e of SetRelationCertificate a b c d r \<Rightarrow> True | _ \<Rightarrow> False) tr"

text \<open>
  Every identifier of the list is free in the table or recorded for \<open>rid\<close>: what a
  \<open>for\<close> loop of \<open>LimitToFirstRequester.evaluate\<close> checks before it lets the CSR pass.
\<close>

definition accepts :: "id_table \<Rightarrow> int \<Rightarrow> string list \<Rightarrow> bool" where
  "accepts tbl rid xs = list_all (\<lambda>x. tbl x = None \<or> tbl x = Some rid) xs"



section \<open>A concrete deployment\<close>

text \<open>
  A loader that knows two CSRs: \<open>csrA\<close>, with common name \<open>a\<close> and a Subject
  Alternative Name extension, and \<open>csrN\<close>, with the same common name and no extension.
  Any other bytes fail to load. The charm has both filters switched on, both relations, an
  empty peer data bag, and one outstanding request, \<open>csrA\<close> of relation 1.
\<close>

definition example_csr :: csr_object where
  "example_csr =
     \<lparr>common_names = [''a''],
      san = Some \<lparr>dns_names = [''api.a.com''], ip_addresses = [''10.0.0.1''],
                  registered_ids = [''1.2.3'']\<rparr>\<rparr>"

definition example_csr_without_san :: csr_object where
  "example_csr_without_san = \<lparr>common_names = [''a''], san = None\<rparr>"

definition example_load :: loader where
  "example_load c =
     (if c = ''csrA'' then Some example_csr
      else if c = ''csrN'' then Some example_csr_without_san
      else None)"

definition example_charm :: charm where
  "example_charm =
     \<lparr>limit_to_one_request = True, limit_to_first_requester = True,
      peer_relation = Some \<lparr>app_data = None\<rparr>, provider_relation = True,
      requirer_csrs = [\<lparr>relation_id = 1, csr = ''csrA''\<rparr>],
      unit_status = ActiveStatus, effects = []\<rparr>"

definition example_reserved :: relation where
  "example_reserved = \<lparr>app_data = Some [''dns'' \<mapsto> [''api.a.com'' \<mapsto> 1]]\<rparr>"

section \<open>Properties\<close>

text \<open>
  C5. \<open>LimitToOneRequest.evaluate\<close> returns \<open>False\<close> exactly when the outstanding
  requests hold at least two entries of the requesting relation id, whatever the submitted
  CSR bytes are; its \<open>callback\<close> returns with the state it was given.
\<close>

theorem C5_one_request_counts:
  "fst (LimitToOneRequest_evaluate c rid rs) =
     Inr (\<not> 2 \<le> length (filter (\<lambda>r. relation_id r = rid) rs))
   \<and> fst (LimitToOneRequest_evaluate c rid rs) = fst (LimitToOneRequest_evaluate c' rid rs)
   \<and> LimitToOneRequest_callback c rid rel = Inr rel"
  by (simp add: LimitToOneRequest_evaluate_def LimitToOneRequest_callback_def Let_def)

subsection \<open>The filter chain\<close>

lemma callbacks_append: "callbacks (xs @ ys) = callbacks xs @ callbacks ys"
  by (simp add: callbacks_def)

lemma evaluate_logs: "callbacks (snd (evaluate load rel f c rid rs)) = []"
  by (cases f)
     (auto simp: callbacks_def LimitToOneRequest_evaluate_def LimitToFirstRequester_evaluate_def
        Let_def split: option.splits)

lemma all_evaluate_frame:
  "peer_relation (snd (all_evaluate load c rid rs fs s)) = peer_relation s
   \<and> callbacks (effects (snd (all_evaluate load c rid rs fs s))) = callbacks (effects s)
   \<and> requirer_csrs (snd (all_evaluate load c rid rs fs s)) = requirer_csrs s"
proof (induction fs arbitrary: s)
  case Nil
  show ?case by simp
next
  case (Cons f fs)
  obtain r logs where ev: "evaluate load (peer_relation s) f c rid rs = (r, logs)"
    by (cases "evaluate load (peer_relation s) f c rid rs")
  have lg: "callbacks logs = []" using evaluate_logs [of load "peer_relation s" f c rid rs] ev by simp
  show ?case using Cons.IH [of "s\<lparr>effects := effects s @ logs\<rparr>"] ev lg
    by (cases r) (auto simp: Let_def callbacks_append)
qed

lemma all_evaluate_True_iff:
  "(fst (all_evaluate load c rid rs fs s) = Inr True) =
     (\<forall>f \<in> set fs. fst (evaluate load (peer_relation s) f c rid rs) = Inr True)"
proof (induction fs arbitrary: s)
  case Nil
  show ?case by simp
next
  case (Cons f fs)
  obtain r logs where ev: "evaluate load (peer_relation s) f c rid rs = (r, logs)"
    by (cases "evaluate load (peer_relation s) f c rid rs")
  show ?case using Cons.IH [of "s\<lparr>effects := effects s @ logs\<rparr>"] ev
    by (cases r) (auto simp: Let_def)
qed

lemma evaluate_True_callback_ok:
  "fst (evaluate load rel f c rid rs) = Inr True \<Longrightarrow> callback_ok load c f"
  by (cases f)
     (auto simp: callback_ok_def LimitToFirstRequester_evaluate_def Let_def split: option.splits)

lemma callback_ok_Inr:
  "callback_ok load c f \<Longrightarrow> \<exists>rel'. callback load f c rid rel = Inr rel'"
  by (cases f)
     (auto simp: callback_ok_def LimitToOneRequest_callback_def LimitToFirstRequester_callback_def
        update_reserved_identifier_mapping_def Let_def split: option.splits)

lemma run_callbacks_ok:
  "\<forall>f \<in> set fs. callback_ok load c f \<Longrightarrow>
     fst (run_callbacks load c rid fs s) = Inr ()
     \<and> callbacks (effects (snd (run_callbacks load c rid fs s))) =
         callbacks (effects s) @ map (\<lambda>f. Callback f c rid) fs"
proof (induction fs arbitrary: s)
  case Nil
  show ?case by simp
next
  case (Cons f fs)
  from Cons.prems have "callback_ok load c f" by simp
  then obtain rel' where cb: "callback load f c rid (peer_relation s) = Inr rel'"
    using callback_ok_Inr by blast
  from Cons.prems have rest: "\<forall>f \<in> set fs. callback_ok load c f" by simp
  show ?case
    using Cons.IH [OF rest, of "s\<lparr>effects := effects s @ [Callback f c rid], peer_relation := rel'\<rparr>"] cb
    by (simp add: Let_def callbacks_append) (simp add: callbacks_def)
qed

text \<open>
  C1. \<open>_is_certificate_allowed\<close> returns \<open>True\<close> exactly when every filter of the
  chain of \<open>_get_csr_filters\<close> returns \<open>True\<close> from \<open>evaluate\<close> on the CSR, the
  relation id and the outstanding requests. When it returns \<open>True\<close>, the callbacks
  invoked are those of the filters of the chain, each once, in chain order. When it does
  not (it returns \<open>False\<close> or raises), no callback is invoked and the reserved
  identifiers are as before.
\<close>

theorem C1_allowed_iff_all_filters_accept:
  "(fst (is_certificate_allowed load c rid s) = Inr True) =
     (\<forall>f \<in> set (get_csr_filters s).
        fst (evaluate load (peer_relation s) f c rid (requirer_csrs s)) = Inr True)
   \<and> (fst (is_certificate_allowed load c rid s) = Inr True \<longrightarrow>
        callbacks (effects (snd (is_certificate_allowed load c rid s))) =
          callbacks (effects s) @ map (\<lambda>f. Callback f c rid) (get_csr_filters s))
   \<and> (fst (is_certificate_allowed load c rid s) \<noteq> Inr True \<longrightarrow>
        callbacks (effects (snd (is_certificate_allowed load c rid s))) = callbacks (effects s)
        \<and> peer_relation (snd (is_certificate_allowed load c rid s)) = peer_relation s)"
proof -
  let ?fs = "get_csr_filters s"
  let ?ev = "all_evaluate load c rid (requirer_csrs s) ?fs s"
  obtain r s' where ev: "?ev = (r, s')" by (cases ?ev)
  have frame: "peer_relation s' = peer_relation s" "callbacks (effects s') = callbacks (effects s)"
    using all_evaluate_frame [of load c rid "requirer_csrs s" ?fs s] ev by simp_all
  have iff: "(r = Inr True) =
     (\<forall>f \<in> set ?fs. fst (evaluate load (peer_relation s) f c rid (requirer_csrs s)) = Inr True)"
    using all_evaluate_True_iff [of load c rid "requirer_csrs s" ?fs s] ev by simp
  show ?thesis
  proof (cases "r = Inr True")
    case True
    with iff have "\<forall>f \<in> set ?fs. callback_ok load c f"
      using evaluate_True_callback_ok by blast
    from run_callbacks_ok [OF this, of rid s'] obtain s'' where
      rc: "run_callbacks load c rid ?fs s' = (Inr (), s'')"
      and tr: "callbacks (effects s'') = callbacks (effects s') @ map (\<lambda>f. Callback f c rid) ?fs"
      by (cases "run_callbacks load c rid ?fs s'") auto
    have res: "is_certificate_allowed load c rid s = (Inr True, s'')"
      using ev True rc by (simp add: is_certificate_allowed_def Let_def)
    show ?thesis using res iff True tr frame by simp
  next
    case False
    have res: "fst (is_certificate_allowed load c rid s) = r \<and> snd (is_certificate_allowed load c rid s) = s'"
      using ev False by (cases r) (auto simp: is_certificate_allowed_def Let_def)
    show ?thesis using res iff False frame by simp
  qed
qed

subsection \<open>What \<open>LimitToFirstRequester.evaluate\<close> decides\<close>






subsection \<open>\<open>LimitToOneRequest\<close> on a relation with one outstanding request\<close>

lemma two_members_filter:
  assumes "a \<in> set xs" "b \<in> set xs" "a \<noteq> b" "P a" "P b"
  shows "2 \<le> length (filter P xs)"
proof -
  have "{a, b} \<subseteq> set (filter P xs)" using assms by simp
  then have "card {a, b} \<le> card (set (filter P xs))" by (intro card_mono) simp_all
  also have "\<dots> \<le> length (filter P xs)" by (rule card_length)
  finally show ?thesis using assms(3) by simp
qed

text \<open>
  C4 (as amended). When the outstanding requests hold exactly one entry of the
  requesting relation id, \<open>LimitToOneRequest.evaluate\<close> returns \<open>True\<close> for every
  submitted CSR, the one of that entry or another. It returns \<open>False\<close> for a CSR that
  differs from an existing one of the relation once both are among the outstanding
  requests.
\<close>

theorem C4_one_outstanding_entry:
  "(length (filter (\<lambda>r. relation_id r = rid) rs) = 1 \<longrightarrow>
      fst (LimitToOneRequest_evaluate c rid rs) = Inr True)
   \<and> (\<lparr>relation_id = rid, csr = existing\<rparr> \<in> set rs
        \<and> \<lparr>relation_id = rid, csr = c\<rparr> \<in> set rs \<and> c \<noteq> existing \<longrightarrow>
      fst (LimitToOneRequest_evaluate c rid rs) = Inr False)"
proof (intro conjI impI)
  assume "length (filter (\<lambda>r. relation_id r = rid) rs) = 1"
  then show "fst (LimitToOneRequest_evaluate c rid rs) = Inr True"
    by (simp add: LimitToOneRequest_evaluate_def)
next
  assume h: "\<lparr>relation_id = rid, csr = existing\<rparr> \<in> set rs
        \<and> \<lparr>relation_id = rid, csr = c\<rparr> \<in> set rs \<and> c \<noteq> existing"
  have "2 \<le> length (filter (\<lambda>r. relation_id r = rid) rs)"
    by (rule two_members_filter [of "\<lparr>relation_id = rid, csr = existing\<rparr>" _
          "\<lparr>relation_id = rid, csr = c\<rparr>"]) (use h in auto)
  then show "fst (LimitToOneRequest_evaluate c rid rs) = Inr False"
    by (simp add: LimitToOneRequest_evaluate_def)
qed

text \<open>
  C4 as stated fails: relation 1 has the single outstanding request \<open>csrA\<close>, submits
  the different \<open>csrB\<close>, and \<open>evaluate\<close> returns \<open>True\<close>.
\<close>

theorem C4_distinct_csr_allowed_counterexample:
  "length (filter (\<lambda>r. relation_id r = 1) [\<lparr>relation_id = 1, csr = ''csrA''\<rparr>]) = 1
   \<and> ''csrB'' \<noteq> ''csrA''
   \<and> fst (LimitToOneRequest_evaluate ''csrB'' 1 [\<lparr>relation_id = 1, csr = ''csrA''\<rparr>]) = Inr True"
  by (simp add: LimitToOneRequest_evaluate_def)

subsection \<open>Without the peer relation\<close>

text \<open>
  C6. Without the peer relation, \<open>LimitToFirstRequester.evaluate\<close> returns \<open>False\<close>
  for every CSR and relation id and logs an error; and with the filter switched on,
  \<open>_is_certificate_allowed\<close> returns \<open>False\<close> for every CSR and relation id.
\<close>

theorem C6_fail_closed_without_peer:
  "LimitToFirstRequester_evaluate load None c rid rs = (Inr False, [Log ERROR NO_PEER_MSG])
   \<and> (limit_to_first_requester s \<and> peer_relation s = None \<longrightarrow>
        fst (is_certificate_allowed load c rid s) = Inr False)"
proof -
  have a: "LimitToFirstRequester_evaluate load None c rid rs = (Inr False, [Log ERROR NO_PEER_MSG])"
    by (simp add: LimitToFirstRequester_evaluate_def)
  have b: "fst (is_certificate_allowed load c rid s) = Inr False"
    if "limit_to_first_requester s" "peer_relation s = None"
    using that
    by (simp add: is_certificate_allowed_def get_csr_filters_def Let_def
          LimitToFirstRequester_evaluate_def LimitToOneRequest_evaluate_def)
  show ?thesis using a b by blast
qed

subsection \<open>Finding the relation of an issued certificate\<close>

lemma remdups_shape:
  "(set xs = {} \<longrightarrow> remdups xs = [])
   \<and> (set xs = {t} \<longrightarrow> remdups xs = [t])
   \<and> (1 < card (set xs) \<longrightarrow> (\<exists>a b ys. remdups xs = a # b # ys))"
proof (intro conjI impI)
  assume "set xs = {}"
  then show "remdups xs = []" by simp
next
  assume h: "set xs = {t}"
  have "length (remdups xs) = 1" using h by (simp add: length_remdups_card_conv)
  then obtain y where y: "remdups xs = [y]"
    by (cases "remdups xs") auto
  have "set (remdups xs) = {t}" using h by simp
  with y show "remdups xs = [t]" by simp
next
  assume "1 < card (set xs)"
  then have "2 \<le> length (remdups xs)" by (simp add: length_remdups_card_conv)
  then show "\<exists>a b ys. remdups xs = a # b # ys"
    by (cases "remdups xs"; cases "tl (remdups xs)") auto
qed

text \<open>
  C7. \<open>_get_relation_id_for_csr\<close> compares the CSR with those of the outstanding
  requests by equality. When the matching requests have one relation id, it returns that
  id. When none matches it returns \<open>None\<close> and logs nothing; when the matching requests
  have more than one relation id it returns \<open>None\<close> and logs an error. In these two
  cases \<open>_on_certificate_available\<close> hands the certificate to no requirer.
\<close>

theorem C7_resolver:
  "(matching_relation_ids c (requirer_csrs s) = {t} \<longrightarrow>
      get_relation_id_for_csr c s = (Some t, s))
   \<and> (matching_relation_ids c (requirer_csrs s) = {} \<longrightarrow>
      get_relation_id_for_csr c s = (None, s)
      \<and> deliveries (effects (snd (on_certificate_available c certificate ca chain s))) =
          deliveries (effects s))
   \<and> (1 < card (matching_relation_ids c (requirer_csrs s)) \<longrightarrow>
      get_relation_id_for_csr c s = (None, s\<lparr>effects := effects s @ [Log ERROR MULTIPLE_MSG]\<rparr>)
      \<and> deliveries (effects (snd (on_certificate_available c certificate ca chain s))) =
          deliveries (effects s))"
proof -
  let ?xs = "map relation_id (filter (\<lambda>r. csr r = c) (requirer_csrs s))"
  note sh = remdups_shape [of ?xs]
  have one: "get_relation_id_for_csr c s = (Some t, s)" if "set ?xs = {t}"
    using sh that by (simp add: get_relation_id_for_csr_def)
  have none: "get_relation_id_for_csr c s = (None, s)" if "set ?xs = {}"
    using that by (simp add: get_relation_id_for_csr_def)
  have many: "get_relation_id_for_csr c s =
      (None, s\<lparr>effects := effects s @ [Log ERROR MULTIPLE_MSG]\<rparr>)" if big: "1 < card (set ?xs)"
  proof -
    from sh big have "\<exists>a b ys. remdups ?xs = a # b # ys" by blast
    then obtain a b ys where "remdups ?xs = a # b # ys" by blast
    then show ?thesis by (simp add: get_relation_id_for_csr_def)
  qed
  show ?thesis
    using one none many
    by (auto simp: matching_relation_ids_def on_certificate_available_def deliveries_def)
qed

text \<open>
  C10. When the matching requests have the single relation id 0,
  \<open>_get_relation_id_for_csr\<close> returns 0, and \<open>_on_certificate_available\<close> does what
  it does when no relation was found: it logs that error, and hands the certificate to
  no requirer.
\<close>

theorem C10_relation_id_zero:
  "matching_relation_ids c (requirer_csrs s) = {0} \<longrightarrow>
     get_relation_id_for_csr c s = (Some 0, s)
     \<and> on_certificate_available c certificate ca chain s =
         (Inr (), s\<lparr>effects := effects s @ [Log ERROR NOT_FOUND_MSG]\<rparr>)"
proof
  assume h: "matching_relation_ids c (requirer_csrs s) = {0}"
  have "get_relation_id_for_csr c s = (Some 0, s)"
    using remdups_shape [of "map relation_id (filter (\<lambda>r. csr r = c) (requirer_csrs s))" 0] h
    by (simp add: get_relation_id_for_csr_def matching_relation_ids_def)
  then show "get_relation_id_for_csr c s = (Some 0, s)
     \<and> on_certificate_available c certificate ca chain s =
         (Inr (), s\<lparr>effects := effects s @ [Log ERROR NOT_FOUND_MSG]\<rparr>)"
    by (simp add: on_certificate_available_def)
qed

subsection \<open>Claiming again\<close>

lemma first_reserved_accepts: "(first_reserved tbl rid xs = None) = accepts tbl rid xs"
  by (induction xs) (auto simp: accepts_def)

lemma evaluate_True_iff:
  "(fst (LimitToFirstRequester_evaluate load rel c rid rs) = Inr True) =
     (case rel of None \<Rightarrow> False | Some r \<Rightarrow>
       (case load c of None \<Rightarrow> False | Some ob \<Rightarrow>
         (case san ob of None \<Rightarrow> False | Some s \<Rightarrow>
            accepts (dict_get (get_reserved_identifiers rel) ''dns'') rid
              (dns_names s @ common_names ob)
            \<and> accepts (dict_get (get_reserved_identifiers rel) ''ip'') rid
              (ip_addresses s @ common_names ob)
            \<and> accepts (dict_get (get_reserved_identifiers rel) ''oid'') rid
              (registered_ids s @ common_names ob))))"
  by (auto simp: LimitToFirstRequester_evaluate_def Let_def first_reserved_accepts [symmetric]
        split: option.splits)

lemma dict_get_upd: "dict_get (m(k \<mapsto> t)) k' = (if k' = k then t else dict_get m k')"
  by (simp add: dict_get_def)

lemma add_keys_apply:
  "(tbl ++ dict_of_keys ks rid) x = (if x \<in> set ks then Some rid else tbl x)"
  by (simp add: dict_of_keys_def map_add_def)

lemma accepts_add_keys:
  "accepts tbl rid (ks @ cns) \<Longrightarrow> accepts (tbl ++ dict_of_keys ks rid) rid (ks @ cns)"
  by (auto simp: accepts_def list_all_iff add_keys_apply)

lemma callback_on_loaded:
  assumes "load c = Some ob" and "san ob = Some s"
  shows "LimitToFirstRequester_callback load c rid (Some r) =
    Inr (Some (r\<lparr>app_data := Some ((get_reserved_identifiers (Some r))
      (''dns'' \<mapsto> dict_get (get_reserved_identifiers (Some r)) ''dns'' ++ dict_of_keys (dns_names s) rid,
       ''ip'' \<mapsto> dict_get (get_reserved_identifiers (Some r)) ''ip'' ++ dict_of_keys (ip_addresses s) rid,
       ''oid'' \<mapsto> dict_get (get_reserved_identifiers (Some r)) ''oid'' ++ dict_of_keys (registered_ids s) rid))\<rparr>))"
  using assms
  by (simp add: LimitToFirstRequester_callback_def update_reserved_identifier_mapping_def
        Let_def set_reserved_identifiers_def dict_get_upd)

lemma add_keys_twice: "tbl ++ dict_of_keys ks rid ++ dict_of_keys ks rid = tbl ++ dict_of_keys ks rid"
  by (rule ext) (simp add: map_add_def dict_of_keys_def)

lemma callback_twice:
  assumes "LimitToFirstRequester_callback load c rid rel = Inr rel'"
  shows "LimitToFirstRequester_callback load c rid rel' = Inr rel'"
proof (cases rel)
  case None
  with assms show ?thesis
    by (auto simp: LimitToFirstRequester_callback_def update_reserved_identifier_mapping_def
        Let_def set_reserved_identifiers_def split: option.splits)
next
  case (Some r)
  from assms obtain ob s where ld: "load c = Some ob" "san ob = Some s"
    by (auto simp: LimitToFirstRequester_callback_def update_reserved_identifier_mapping_def
        split: option.splits)
  let ?m = "get_reserved_identifiers (Some r)"
  let ?m' = "?m(''dns'' \<mapsto> dict_get ?m ''dns'' ++ dict_of_keys (dns_names s) rid,
       ''ip'' \<mapsto> dict_get ?m ''ip'' ++ dict_of_keys (ip_addresses s) rid,
       ''oid'' \<mapsto> dict_get ?m ''oid'' ++ dict_of_keys (registered_ids s) rid)"
  have rel': "rel' = Some (r\<lparr>app_data := Some ?m'\<rparr>)"
    using assms Some callback_on_loaded [of load c ob s rid r] ld by simp
  have g: "get_reserved_identifiers (Some (r\<lparr>app_data := Some ?m'\<rparr>)) = ?m'"
    by (simp add: get_reserved_identifiers_def)
  have same: "?m'(''dns'' \<mapsto> dict_get ?m' ''dns'' ++ dict_of_keys (dns_names s) rid,
       ''ip'' \<mapsto> dict_get ?m' ''ip'' ++ dict_of_keys (ip_addresses s) rid,
       ''oid'' \<mapsto> dict_get ?m' ''oid'' ++ dict_of_keys (registered_ids s) rid) = ?m'"
    by (rule ext) (simp add: dict_get_upd add_keys_twice)
  have "LimitToFirstRequester_callback load c rid (Some (r\<lparr>app_data := Some ?m'\<rparr>)) =
      Inr (Some (r\<lparr>app_data := Some ?m'\<rparr>))"
    using callback_on_loaded [of load c ob s rid "r\<lparr>app_data := Some ?m'\<rparr>"] ld
    unfolding g same by simp
  then show ?thesis unfolding rel' .
qed

lemma evaluate_after_callback:
  assumes ev: "fst (LimitToFirstRequester_evaluate load rel c rid rs) = Inr True"
      and cb: "LimitToFirstRequester_callback load c rid rel = Inr rel'"
  shows "fst (LimitToFirstRequester_evaluate load rel' c rid rs') = Inr True"
proof -
  from ev obtain r ob s where rel: "rel = Some r" and ld: "load c = Some ob" "san ob = Some s"
    by (auto simp: evaluate_True_iff split: option.splits)
  let ?m = "get_reserved_identifiers (Some r)"
  from ev rel ld have acc:
    "accepts (dict_get ?m ''dns'') rid (dns_names s @ common_names ob)"
    "accepts (dict_get ?m ''ip'') rid (ip_addresses s @ common_names ob)"
    "accepts (dict_get ?m ''oid'') rid (registered_ids s @ common_names ob)"
    by (simp_all add: evaluate_True_iff)
  let ?m' = "?m(''dns'' \<mapsto> dict_get ?m ''dns'' ++ dict_of_keys (dns_names s) rid,
       ''ip'' \<mapsto> dict_get ?m ''ip'' ++ dict_of_keys (ip_addresses s) rid,
       ''oid'' \<mapsto> dict_get ?m ''oid'' ++ dict_of_keys (registered_ids s) rid)"
  have rel': "rel' = Some (r\<lparr>app_data := Some ?m'\<rparr>)"
    using cb rel callback_on_loaded [of load c ob s rid r] ld by simp
  have g: "get_reserved_identifiers (Some (r\<lparr>app_data := Some ?m'\<rparr>)) = ?m'"
    by (simp add: get_reserved_identifiers_def)
  show ?thesis
    unfolding rel' evaluate_True_iff g
    using ld acc by (simp add: dict_get_upd accepts_add_keys)
qed

text \<open>
  C8. When \<open>LimitToFirstRequester\<close> has accepted a CSR for a relation id and its
  callback has recorded the identifiers, \<open>evaluate\<close> accepts the same CSR for the same
  relation id again (whatever the outstanding requests are then), and running the callback
  again leaves the peer relation, and so the reserved identifiers, as they are.
\<close>

theorem C8_reclaim_idempotent:
  "fst (LimitToFirstRequester_evaluate load rel c rid rs) = Inr True
   \<and> LimitToFirstRequester_callback load c rid rel = Inr rel' \<longrightarrow>
   fst (LimitToFirstRequester_evaluate load rel' c rid rs') = Inr True
   \<and> LimitToFirstRequester_callback load c rid rel' = Inr rel'"
  using evaluate_after_callback callback_twice by blast


subsection \<open>The filter chain, step by step\<close>

lemma is_certificate_allowed_unfold:
  "is_certificate_allowed load c rid s =
     (if \<forall>f \<in> set (get_csr_filters s).
           fst (evaluate load (peer_relation s) f c rid (requirer_csrs s)) = Inr True
      then (Inr True, snd (run_callbacks load c rid (get_csr_filters s)
                       (snd (all_evaluate load c rid (requirer_csrs s) (get_csr_filters s) s))))
      else all_evaluate load c rid (requirer_csrs s) (get_csr_filters s) s)"
proof -
  let ?fs = "get_csr_filters s"
  let ?ev = "all_evaluate load c rid (requirer_csrs s) ?fs s"
  obtain r s' where ev: "?ev = (r, s')" by (cases ?ev)
  have iff: "(r = Inr True) =
     (\<forall>f \<in> set ?fs. fst (evaluate load (peer_relation s) f c rid (requirer_csrs s)) = Inr True)"
    using all_evaluate_True_iff [of load c rid "requirer_csrs s" ?fs s] ev by simp
  show ?thesis
  proof (cases "r = Inr True")
    case True
    with iff have "\<forall>f \<in> set ?fs. callback_ok load c f"
      using evaluate_True_callback_ok by blast
    from run_callbacks_ok [OF this, of rid s'] obtain s'' where
      "run_callbacks load c rid ?fs s' = (Inr (), s'')"
      by (cases "run_callbacks load c rid ?fs s'") auto
    then show ?thesis
      using ev True iff by (simp add: is_certificate_allowed_def Let_def)
  next
    case False
    then show ?thesis
      using ev iff by (cases r) (auto simp: is_certificate_allowed_def Let_def)
  qed
qed

lemma is_certificate_allowed_accept:
  assumes "\<forall>f \<in> set (get_csr_filters s).
           fst (evaluate load (peer_relation s) f c rid (requirer_csrs s)) = Inr True"
  shows "is_certificate_allowed load c rid s =
     (Inr True, snd (run_callbacks load c rid (get_csr_filters s)
                       (snd (all_evaluate load c rid (requirer_csrs s) (get_csr_filters s) s))))"
  by (subst is_certificate_allowed_unfold) (rule if_P [OF assms])

lemma is_certificate_allowed_refuse:
  assumes "\<not> (\<forall>f \<in> set (get_csr_filters s).
           fst (evaluate load (peer_relation s) f c rid (requirer_csrs s)) = Inr True)"
  shows "is_certificate_allowed load c rid s =
     all_evaluate load c rid (requirer_csrs s) (get_csr_filters s) s"
  by (subst is_certificate_allowed_unfold) (rule if_not_P [OF assms])











subsection \<open>Reservations stay\<close>

lemma get_set_app_data:
  "get_reserved_identifiers (Some (r\<lparr>app_data := Some m\<rparr>)) = m"
  by (simp add: get_reserved_identifiers_def)

lemma callback_keeps_owner:
  assumes ev: "fst (LimitToFirstRequester_evaluate load rel c rid rs) = Inr True"
      and cb: "LimitToFirstRequester_callback load c rid rel = Inr rel'"
      and own: "owner rel k v = Some t"
  shows "owner rel' k v = Some t"
proof -
  from ev obtain r ob s where rel: "rel = Some r" and ld: "load c = Some ob" "san ob = Some s"
    by (auto simp: evaluate_True_iff split: option.splits)
  let ?m = "get_reserved_identifiers (Some r)"
  from ev rel ld have acc:
    "accepts (dict_get ?m ''dns'') rid (dns_names s @ common_names ob)"
    "accepts (dict_get ?m ''ip'') rid (ip_addresses s @ common_names ob)"
    "accepts (dict_get ?m ''oid'') rid (registered_ids s @ common_names ob)"
    by (simp_all add: evaluate_True_iff)
  have rel': "rel' = Some (r\<lparr>app_data := Some (?m
      (''dns'' \<mapsto> dict_get ?m ''dns'' ++ dict_of_keys (dns_names s) rid,
       ''ip'' \<mapsto> dict_get ?m ''ip'' ++ dict_of_keys (ip_addresses s) rid,
       ''oid'' \<mapsto> dict_get ?m ''oid'' ++ dict_of_keys (registered_ids s) rid))\<rparr>)"
    using cb rel callback_on_loaded [of load c ob s rid r] ld by simp
  from own rel have o: "dict_get ?m k v = Some t" by (simp add: owner_def)
  have keep: "(tbl ++ dict_of_keys ks rid) v = Some t"
    if "accepts tbl rid (ks @ cns)" "tbl v = Some t" for tbl ks cns
  proof (cases "v \<in> set ks")
    case True
    with that(1) have "tbl v = None \<or> tbl v = Some rid"
      by (simp add: accepts_def list_all_iff)
    with that(2) True show ?thesis by (simp add: add_keys_apply)
  next
    case False
    with that(2) show ?thesis by (simp add: add_keys_apply)
  qed
  consider (dns) "k = ''dns''" | (ip) "k = ''ip''" | (oid) "k = ''oid''"
    | (other) "k \<noteq> ''dns''" "k \<noteq> ''ip''" "k \<noteq> ''oid''" by blast
  then show ?thesis
  proof cases
    case dns
    with o keep [OF acc(1)] show ?thesis
      unfolding rel' owner_def get_set_app_data by (simp add: dict_get_upd)
  next
    case ip
    with o keep [OF acc(2)] show ?thesis
      unfolding rel' owner_def get_set_app_data by (simp add: dict_get_upd)
  next
    case oid
    with o keep [OF acc(3)] show ?thesis
      unfolding rel' owner_def get_set_app_data by (simp add: dict_get_upd)
  next
    case other
    with o show ?thesis
      unfolding rel' owner_def get_set_app_data by (simp add: dict_get_upd)
  qed
qed

lemma callback_new_owner:
  assumes cb: "LimitToFirstRequester_callback load c rid rel = Inr rel'"
      and own: "owner rel' k v = Some t"
  shows "owner rel k v = Some t
         \<or> (t = rid \<and> (case load c of None \<Rightarrow> False
                          | Some ob \<Rightarrow> (k, v) \<in> set (csr_identifiers ob)))"
proof (cases rel)
  case None
  with cb have "rel' = None"
    by (auto simp: LimitToFirstRequester_callback_def update_reserved_identifier_mapping_def
        Let_def set_reserved_identifiers_def split: option.splits)
  with own show ?thesis
    by (simp add: owner_def get_reserved_identifiers_def dict_get_def)
next
  case (Some r)
  from cb obtain ob s where ld: "load c = Some ob" "san ob = Some s"
    by (auto simp: LimitToFirstRequester_callback_def update_reserved_identifier_mapping_def
        split: option.splits)
  let ?m = "get_reserved_identifiers (Some r)"
  have rel': "rel' = Some (r\<lparr>app_data := Some (?m
      (''dns'' \<mapsto> dict_get ?m ''dns'' ++ dict_of_keys (dns_names s) rid,
       ''ip'' \<mapsto> dict_get ?m ''ip'' ++ dict_of_keys (ip_addresses s) rid,
       ''oid'' \<mapsto> dict_get ?m ''oid'' ++ dict_of_keys (registered_ids s) rid))\<rparr>)"
    using cb Some callback_on_loaded [of load c ob s rid r] ld by simp
  from own have o: "dict_get (?m
      (''dns'' \<mapsto> dict_get ?m ''dns'' ++ dict_of_keys (dns_names s) rid,
       ''ip'' \<mapsto> dict_get ?m ''ip'' ++ dict_of_keys (ip_addresses s) rid,
       ''oid'' \<mapsto> dict_get ?m ''oid'' ++ dict_of_keys (registered_ids s) rid)) k v = Some t"
    unfolding rel' owner_def get_set_app_data .
  have new: "tbl v = Some t \<or> (t = rid \<and> v \<in> set ks)"
    if "(tbl ++ dict_of_keys ks rid) v = Some t" for tbl ks
    using that by (auto simp: add_keys_apply split: if_splits)
  have ids: "(''dns'', x) \<in> set (csr_identifiers ob)" if "x \<in> set (dns_names s)" for x
    using that ld by (simp add: csr_identifiers_def)
  have ids2: "(''ip'', x) \<in> set (csr_identifiers ob)" if "x \<in> set (ip_addresses s)" for x
    using that ld by (simp add: csr_identifiers_def)
  have ids3: "(''oid'', x) \<in> set (csr_identifiers ob)" if "x \<in> set (registered_ids s)" for x
    using that ld by (simp add: csr_identifiers_def)
  consider (dns) "k = ''dns''" | (ip) "k = ''ip''" | (oid) "k = ''oid''"
    | (other) "k \<noteq> ''dns''" "k \<noteq> ''ip''" "k \<noteq> ''oid''" by blast
  then show ?thesis
  proof cases
    case dns
    with o have "(dict_get ?m ''dns'' ++ dict_of_keys (dns_names s) rid) v = Some t"
      by (simp add: dict_get_upd)
    from new [OF this] show ?thesis using ids ld dns by (auto simp: owner_def Some)
  next
    case ip
    with o have "(dict_get ?m ''ip'' ++ dict_of_keys (ip_addresses s) rid) v = Some t"
      by (simp add: dict_get_upd)
    from new [OF this] show ?thesis using ids2 ld ip by (auto simp: owner_def Some)
  next
    case oid
    with o have "(dict_get ?m ''oid'' ++ dict_of_keys (registered_ids s) rid) v = Some t"
      by (simp add: dict_get_upd)
    from new [OF this] show ?thesis using ids3 ld oid by (auto simp: owner_def Some)
  next
    case other
    with o have "dict_get ?m k v = Some t" by (simp add: dict_get_upd)
    then show ?thesis by (simp add: owner_def Some)
  qed
qed

lemma evaluate_stable:
  assumes "fst (evaluate load rel g c rid rs) = Inr True"
      and "fst (evaluate load rel f c rid rs) = Inr True"
      and "callback load f c rid rel = Inr rel'"
  shows "fst (evaluate load rel' g c rid rs) = Inr True"
proof (cases f)
  case LimitToOneRequest
  with assms show ?thesis by (simp add: LimitToOneRequest_callback_def)
next
  case f: LimitToFirstRequester
  show ?thesis
  proof (cases g)
    case LimitToOneRequest
    with assms show ?thesis by simp
  next
    case LimitToFirstRequester
    with assms f show ?thesis using evaluate_after_callback by simp
  qed
qed

lemma callback_dispatch_keeps_owner:
  assumes "fst (evaluate load rel f c rid rs) = Inr True"
      and "callback load f c rid rel = Inr rel'"
      and "owner rel k v = Some t"
  shows "owner rel' k v = Some t"
  using assms callback_keeps_owner
  by (cases f) (auto simp: LimitToOneRequest_callback_def)

lemma callback_dispatch_new_owner:
  assumes "callback load f c rid rel = Inr rel'"
      and "owner rel' k v = Some t"
  shows "owner rel k v = Some t
         \<or> (t = rid \<and> (case load c of None \<Rightarrow> False
                          | Some ob \<Rightarrow> (k, v) \<in> set (csr_identifiers ob)))"
  using assms callback_new_owner
  by (cases f) (auto simp: LimitToOneRequest_callback_def)

lemma run_callbacks_keeps_owner:
  assumes "\<forall>f \<in> set fs. fst (evaluate load (peer_relation s) f c rid rs) = Inr True"
      and "owner (peer_relation s) k v = Some t"
  shows "owner (peer_relation (snd (run_callbacks load c rid fs s))) k v = Some t"
  using assms
proof (induction fs arbitrary: s)
  case Nil
  then show ?case by simp
next
  case (Cons f fs)
  let ?s' = "s\<lparr>effects := effects s @ [Callback f c rid]\<rparr>"
  show ?case
  proof (cases "callback load f c rid (peer_relation s)")
    case (Inl e)
    with Cons.prems show ?thesis by (simp add: Let_def)
  next
    case (Inr rel')
    have f: "fst (evaluate load (peer_relation s) f c rid rs) = Inr True"
      using Cons.prems by simp
    have a: "\<forall>g \<in> set fs.
        fst (evaluate load (peer_relation (?s'\<lparr>peer_relation := rel'\<rparr>)) g c rid rs) = Inr True"
      using Cons.prems(1) evaluate_stable [OF _ f Inr] by simp
    have b: "owner (peer_relation (?s'\<lparr>peer_relation := rel'\<rparr>)) k v = Some t"
      using callback_dispatch_keeps_owner [OF f Inr Cons.prems(2)] by simp
    show ?thesis using Cons.IH [OF a b] Inr by (simp add: Let_def)
  qed
qed

lemma run_callbacks_new_owner:
  assumes "owner (peer_relation (snd (run_callbacks load c rid fs s))) k v = Some t"
  shows "owner (peer_relation s) k v = Some t
         \<or> (t = rid \<and> (case load c of None \<Rightarrow> False
                          | Some ob \<Rightarrow> (k, v) \<in> set (csr_identifiers ob)))"
  using assms
proof (induction fs arbitrary: s)
  case Nil
  then show ?case by simp
next
  case (Cons f fs)
  let ?s' = "s\<lparr>effects := effects s @ [Callback f c rid]\<rparr>"
  show ?case
  proof (cases "callback load f c rid (peer_relation s)")
    case (Inl e)
    with Cons.prems show ?thesis by (simp add: Let_def)
  next
    case (Inr rel')
    from Cons.prems Inr have
      "owner (peer_relation (snd (run_callbacks load c rid fs (?s'\<lparr>peer_relation := rel'\<rparr>)))) k v
         = Some t"
      by (simp add: Let_def)
    from Cons.IH [OF this] have "owner rel' k v = Some t
         \<or> (t = rid \<and> (case load c of None \<Rightarrow> False
                          | Some ob \<Rightarrow> (k, v) \<in> set (csr_identifiers ob)))"
      by simp
    then show ?thesis using callback_dispatch_new_owner [OF Inr] by blast
  qed
qed


lemma is_certificate_allowed_keeps_owner:
  assumes "owner (peer_relation s) k v = Some t"
  shows "owner (peer_relation (snd (is_certificate_allowed load c rid s))) k v = Some t"
proof (cases "\<forall>f \<in> set (get_csr_filters s).
           fst (evaluate load (peer_relation s) f c rid (requirer_csrs s)) = Inr True")
  case True
  let ?s' = "snd (all_evaluate load c rid (requirer_csrs s) (get_csr_filters s) s)"
  have p: "peer_relation ?s' = peer_relation s"
    using all_evaluate_frame [of load c rid "requirer_csrs s" "get_csr_filters s" s] by simp
  have "owner (peer_relation (snd (run_callbacks load c rid (get_csr_filters s) ?s'))) k v = Some t"
    by (rule run_callbacks_keeps_owner [where rs = "requirer_csrs s"]) (use True assms p in simp_all)
  then show ?thesis by (simp add: is_certificate_allowed_accept [OF True])
next
  case False
  show ?thesis
    using all_evaluate_frame [of load c rid "requirer_csrs s" "get_csr_filters s" s] assms
    by (simp add: is_certificate_allowed_refuse [OF False])
qed

lemma is_certificate_allowed_new_owner:
  assumes "owner (peer_relation (snd (is_certificate_allowed load c rid s))) k v = Some t"
  shows "owner (peer_relation s) k v = Some t
         \<or> (t = rid \<and> (case load c of None \<Rightarrow> False
                          | Some ob \<Rightarrow> (k, v) \<in> set (csr_identifiers ob)))"
proof (cases "\<forall>f \<in> set (get_csr_filters s).
           fst (evaluate load (peer_relation s) f c rid (requirer_csrs s)) = Inr True")
  case True
  let ?s' = "snd (all_evaluate load c rid (requirer_csrs s) (get_csr_filters s) s)"
  have p: "peer_relation ?s' = peer_relation s"
    using all_evaluate_frame [of load c rid "requirer_csrs s" "get_csr_filters s" s] by simp
  from assms have
    "owner (peer_relation (snd (run_callbacks load c rid (get_csr_filters s) ?s'))) k v = Some t"
    by (simp add: is_certificate_allowed_accept [OF True])
  from run_callbacks_new_owner [OF this] p show ?thesis by simp
next
  case False
  show ?thesis
    using all_evaluate_frame [of load c rid "requirer_csrs s" "get_csr_filters s" s] assms
    by (simp add: is_certificate_allowed_refuse [OF False])
qed

lemma creation_request_peer:
  "peer_relation (snd (on_certificate_creation_request load c rid is_ca s)) =
     (if provider_relation s
      then peer_relation (snd (is_certificate_allowed load (encode c) rid s))
      else peer_relation s)"
proof -
  obtain r s' where "is_certificate_allowed load (encode c) rid s = (r, s')"
    by (cases "is_certificate_allowed load (encode c) rid s")
  then show ?thesis
    by (cases r) (simp_all add: on_certificate_creation_request_def Let_def)
qed

lemma other_handlers_peer:
  "peer_relation (snd (update_status s)) = peer_relation s"
  "peer_relation (snd (on_certificate_revocation_request c s)) = peer_relation s"
  "peer_relation (snd (on_certificate_available c certificate ca chain s)) = peer_relation s"
  "peer_relation (snd (on_certificate_invalidated reason certificate s)) = peer_relation s"
  "peer_relation (snd (on_all_certificates_invalidated s)) = peer_relation s"
  by (simp_all add: update_status_def on_certificate_revocation_request_def
        on_certificate_available_def get_relation_id_for_csr_def
        on_certificate_invalidated_def on_all_certificates_invalidated_def
        split: list.splits)

text \<open>
  C9. An identifier has one owner at most (the reserved identifiers are a dictionary).
  Whatever event the charm handles, a revocation request and an invalidation among them,
  an identifier that has an owner keeps that owner; and an owner recorded after the event
  was recorded before it, or the event is a certificate creation request of that relation
  id whose CSR names the identifier.
\<close>

theorem C9_reservations_persist:
  "(owner rel k v = Some t \<and> owner rel k v = Some t' \<longrightarrow> t = t')
   \<and> (owner (peer_relation s) k v = Some t \<longrightarrow>
        owner (peer_relation (snd (handle load e s))) k v = Some t)
   \<and> (owner (peer_relation (snd (handle load e s))) k v = Some t \<longrightarrow>
        owner (peer_relation s) k v = Some t
        \<or> (\<exists>c is_ca. e = CertificateCreationRequest c t is_ca
              \<and> (case load (encode c) of None \<Rightarrow> False
                  | Some ob \<Rightarrow> (k, v) \<in> set (csr_identifiers ob))))"
proof (intro conjI impI)
  assume "owner rel k v = Some t \<and> owner rel k v = Some t'"
  then show "t = t'" by auto
next
  assume own: "owner (peer_relation s) k v = Some t"
  show "owner (peer_relation (snd (handle load e s))) k v = Some t"
  proof (cases e)
    case (CertificateCreationRequest c rid is_ca)
    then show ?thesis
      using own is_certificate_allowed_keeps_owner [OF own, of load "encode c" rid]
      by (simp add: creation_request_peer)
  qed (use own in \<open>simp_all add: other_handlers_peer\<close>)
next
  assume own: "owner (peer_relation (snd (handle load e s))) k v = Some t"
  show "owner (peer_relation s) k v = Some t
        \<or> (\<exists>c is_ca. e = CertificateCreationRequest c t is_ca
              \<and> (case load (encode c) of None \<Rightarrow> False
                  | Some ob \<Rightarrow> (k, v) \<in> set (csr_identifiers ob)))"
  proof (cases e)
    case (CertificateCreationRequest c rid is_ca)
    show ?thesis
    proof (cases "provider_relation s")
      case True
      with own CertificateCreationRequest have
        "owner (peer_relation (snd (is_certificate_allowed load (encode c) rid s))) k v = Some t"
        by (simp add: creation_request_peer)
      from is_certificate_allowed_new_owner [OF this] CertificateCreationRequest
      show ?thesis by auto
    next
      case False
      with own CertificateCreationRequest show ?thesis by (simp add: creation_request_peer)
    qed
  qed (use own in \<open>simp_all add: other_handlers_peer\<close>)
qed

subsection \<open>Certificate creation requests\<close>


section \<open>Concrete runs\<close>

lemmas example_defs = example_csr_def example_csr_without_san_def example_load_def
  example_charm_def example_reserved_def

text \<open>
  C1 on the deployment: relation 1 submits \<open>csrA\<close>; both filters accept, the decision
  is \<open>True\<close>, and the two callbacks run in chain order. With \<open>api.a.com\<close> reserved
  for relation 1, relation 2 submits \<open>csrA\<close>: the decision is not \<open>True\<close> and no
  callback runs.
\<close>

theorem C1_witness:
  "fst (is_certificate_allowed example_load ''csrA'' 1 example_charm) = Inr True
   \<and> callbacks (effects (snd (is_certificate_allowed example_load ''csrA'' 1 example_charm))) =
       [Callback LimitToOneRequest ''csrA'' 1, Callback LimitToFirstRequester ''csrA'' 1]
   \<and> fst (is_certificate_allowed example_load ''csrA'' 2
        (example_charm\<lparr>peer_relation := Some example_reserved\<rparr>)) \<noteq> Inr True
   \<and> callbacks (effects (snd (is_certificate_allowed example_load ''csrA'' 2
        (example_charm\<lparr>peer_relation := Some example_reserved\<rparr>)))) = []"
  using C1_allowed_iff_all_filters_accept [of example_load "''csrA''" 1 example_charm]
    C1_allowed_iff_all_filters_accept [of example_load "''csrA''" 2
      "example_charm\<lparr>peer_relation := Some example_reserved\<rparr>"]
  by (simp add: example_defs get_csr_filters_def LimitToOneRequest_evaluate_def
        LimitToFirstRequester_evaluate_def get_reserved_identifiers_def dict_get_def
        callbacks_def)





text \<open>
  C4 on two sets of outstanding requests: a relation with the one request \<open>csrA\<close>
  submitting it again is accepted; with \<open>csrA\<close> and \<open>csrB\<close> both outstanding,
  \<open>csrB\<close> is refused.
\<close>

theorem C4_witness:
  "fst (LimitToOneRequest_evaluate ''csrA'' 1 [\<lparr>relation_id = 1, csr = ''csrA''\<rparr>]) = Inr True
   \<and> fst (LimitToOneRequest_evaluate ''csrB'' 1
        [\<lparr>relation_id = 1, csr = ''csrA''\<rparr>, \<lparr>relation_id = 1, csr = ''csrB''\<rparr>]) = Inr False"
  using C4_one_outstanding_entry [of 1 "[\<lparr>relation_id = 1, csr = ''csrA''\<rparr>]" "''csrA''"]
    C4_one_outstanding_entry [of 1
      "[\<lparr>relation_id = 1, csr = ''csrA''\<rparr>, \<lparr>relation_id = 1, csr = ''csrB''\<rparr>]"
      "''csrB''" "''csrA''"]
  by simp

text \<open>
  C6 on the deployment without its peer relation.
\<close>

theorem C6_witness:
  "fst (is_certificate_allowed example_load ''csrA'' 1
          (example_charm\<lparr>peer_relation := None\<rparr>)) = Inr False"
  using C6_fail_closed_without_peer [of example_load "''csrA''" 1 "[]"
      "example_charm\<lparr>peer_relation := None\<rparr>"]
  by (simp add: example_charm_def)

text \<open>
  C7 on the deployment: \<open>csrA\<close> resolves to relation 1, \<open>csrB\<close> to nothing; with
  \<open>csrA\<close> outstanding for relations 1 and 2 it resolves to nothing and the certificate
  is handed to no requirer.
\<close>

theorem C7_witness:
  "get_relation_id_for_csr ''csrA'' example_charm = (Some 1, example_charm)
   \<and> get_relation_id_for_csr ''csrB'' example_charm = (None, example_charm)
   \<and> fst (get_relation_id_for_csr ''csrA''
        (example_charm\<lparr>requirer_csrs :=
           [\<lparr>relation_id = 1, csr = ''csrA''\<rparr>, \<lparr>relation_id = 2, csr = ''csrA''\<rparr>]\<rparr>)) = None
   \<and> deliveries (effects (snd (on_certificate_available ''csrA'' ''cert'' ''ca'' []
        (example_charm\<lparr>requirer_csrs :=
           [\<lparr>relation_id = 1, csr = ''csrA''\<rparr>, \<lparr>relation_id = 2, csr = ''csrA''\<rparr>]\<rparr>)))) = []"
  using C7_resolver [of "''csrA''" example_charm 1]
    C7_resolver [of "''csrB''" example_charm]
    C7_resolver [of "''csrA''" "example_charm\<lparr>requirer_csrs :=
           [\<lparr>relation_id = 1, csr = ''csrA''\<rparr>, \<lparr>relation_id = 2, csr = ''csrA''\<rparr>]\<rparr>"
        _ "''cert''" "''ca''" "[]"]
  by (simp add: example_charm_def matching_relation_ids_def deliveries_def)

text \<open>
  C8 on the deployment: relation 1 claims the identifiers of \<open>csrA\<close>, then claims
  them again.
\<close>

theorem C8_witness:
  "fst (LimitToFirstRequester_evaluate example_load (Some \<lparr>app_data = None\<rparr>) ''csrA'' 1 []) =
     Inr True
   \<and> (case LimitToFirstRequester_callback example_load ''csrA'' 1 (Some \<lparr>app_data = None\<rparr>) of
         Inl e \<Rightarrow> False
       | Inr rel' \<Rightarrow>
           fst (LimitToFirstRequester_evaluate example_load rel' ''csrA'' 1 []) = Inr True
           \<and> LimitToFirstRequester_callback example_load ''csrA'' 1 rel' = Inr rel')"
proof -
  have ev: "fst (LimitToFirstRequester_evaluate example_load (Some \<lparr>app_data = None\<rparr>)
              ''csrA'' 1 []) = Inr True"
    by (simp add: example_defs LimitToFirstRequester_evaluate_def get_reserved_identifiers_def
          dict_get_def)
  obtain rel' where cb:
    "LimitToFirstRequester_callback example_load ''csrA'' 1 (Some \<lparr>app_data = None\<rparr>) = Inr rel'"
    by (simp add: example_defs LimitToFirstRequester_callback_def
          update_reserved_identifier_mapping_def Let_def)
  show ?thesis
    using C8_reclaim_idempotent [of example_load "Some \<lparr>app_data = None\<rparr>" "''csrA''" 1 "[]"
        rel' "[]"] ev cb
    by simp
qed

text \<open>
  C9 on the deployment with \<open>api.a.com\<close> reserved for relation 1: the reservation is
  there after a revocation request, and after relation 2 asks for the same name. On the
  deployment with nothing reserved, the owner of \<open>10.0.0.1\<close> after the creation request
  of relation 1 is relation 1, whose CSR names the address.
\<close>

theorem C9_witness:
  "owner (Some example_reserved) ''dns'' ''api.a.com'' = Some 1
   \<and> owner (peer_relation (snd (handle example_load (CertificateRevocationRequest ''csrA'')
        (example_charm\<lparr>peer_relation := Some example_reserved\<rparr>)))) ''dns'' ''api.a.com'' = Some 1
   \<and> owner (peer_relation (snd (handle example_load (CertificateCreationRequest ''csrA'' 2 False)
        (example_charm\<lparr>peer_relation := Some example_reserved\<rparr>)))) ''dns'' ''api.a.com'' = Some 1
   \<and> owner (peer_relation example_charm) ''ip'' ''10.0.0.1'' = None
   \<and> owner (peer_relation (snd (handle example_load (CertificateCreationRequest ''csrA'' 1 False)
        example_charm))) ''ip'' ''10.0.0.1'' = Some 1
   \<and> (''ip'', ''10.0.0.1'') \<in> set (csr_identifiers example_csr)"
proof -
  have own: "owner (peer_relation (example_charm\<lparr>peer_relation := Some example_reserved\<rparr>))
      ''dns'' ''api.a.com'' = Some 1"
    by (simp add: example_defs owner_def get_reserved_identifiers_def dict_get_def)
  have new: "owner (peer_relation (snd (handle example_load
        (CertificateCreationRequest ''csrA'' 1 False) example_charm))) ''ip'' ''10.0.0.1'' = Some 1"
    by (simp add: example_defs on_certificate_creation_request_def is_certificate_allowed_def
          encode_def get_csr_filters_def LimitToOneRequest_evaluate_def
          LimitToFirstRequester_evaluate_def get_reserved_identifiers_def dict_get_def
          LimitToOneRequest_callback_def LimitToFirstRequester_callback_def
          update_reserved_identifier_mapping_def set_reserved_identifiers_def owner_def
          dict_of_keys_def Let_def)
  have old: "owner (peer_relation example_charm) ''ip'' ''10.0.0.1'' = None"
    by (simp add: example_defs owner_def get_reserved_identifiers_def dict_get_def)
  show ?thesis
    using own new old
      C9_reservations_persist [of "Some example_reserved" "''dns''" "''api.a.com''" 1 1
        "example_charm\<lparr>peer_relation := Some example_reserved\<rparr>" example_load
        "CertificateRevocationRequest ''csrA''"]
      C9_reservations_persist [of "Some example_reserved" "''dns''" "''api.a.com''" 1 1
        "example_charm\<lparr>peer_relation := Some example_reserved\<rparr>" example_load
        "CertificateCreationRequest ''csrA'' 2 False"]
      C9_reservations_persist [of "Some example_reserved" "''ip''" "''10.0.0.1''" 1 1
        example_charm example_load "CertificateCreationRequest ''csrA'' 1 False"]
    by (simp add: encode_def example_load_def)
qed

text \<open>
  C10 on the deployment with \<open>csrA\<close> outstanding for relation 0 only.
\<close>

theorem C10_witness:
  "on_certificate_available ''csrA'' ''cert'' ''ca'' []
     (example_charm\<lparr>requirer_csrs := [\<lparr>relation_id = 0, csr = ''csrA''\<rparr>]\<rparr>) =
   (Inr (), example_charm\<lparr>requirer_csrs := [\<lparr>relation_id = 0, csr = ''csrA''\<rparr>],
              effects := [Log ERROR NOT_FOUND_MSG]\<rparr>)"
  using C10_relation_id_zero [of "''csrA''"
      "example_charm\<lparr>requirer_csrs := [\<lparr>relation_id = 0, csr = ''csrA''\<rparr>]\<rparr>"
      "''cert''" "''ca''" "[]"]
  by (simp add: example_charm_def matching_relation_ids_def)

end
